theory Spec2Isabelle
  imports Complex_Main
begin

section \<open>Python strings and values\<close>

text \<open>
  Strings are character lists. The string methods the RAG subsystem calls are written
  out on them: \<open>str.strip()\<close>, \<open>str.lower()\<close>, \<open>str.split(sep)\<close>, \<open>str.title()\<close>,
  \<open>str.replace\<close> of one character and \<open>str(n)\<close> of an integer. Case mapping covers
  the ASCII letters.
\<close>

definition whitespace :: "char list" where
  "whitespace =
     [CHR 0x20, CHR 0x09, CHR 0x0A, CHR 0x0B, CHR 0x0C, CHR 0x0D,
      CHR 0x1C, CHR 0x1D, CHR 0x1E, CHR 0x1F, CHR 0x85, CHR 0xA0]"

definition isspace :: "char \<Rightarrow> bool" where
  "isspace c = (c \<in> set whitespace)"

definition py_strip :: "string \<Rightarrow> string" where
  "py_strip s = rev (dropWhile isspace (rev (dropWhile isspace s)))"

definition upper_letters :: string where
  "upper_letters = ''ABCDEFGHIJKLMNOPQRSTUVWXYZ''"

definition lower_letters :: string where
  "lower_letters = ''abcdefghijklmnopqrstuvwxyz''"

definition lower_char :: "char \<Rightarrow> char" where
  "lower_char c = (case map_of (zip upper_letters lower_letters) c of None \<Rightarrow> c | Some l \<Rightarrow> l)"

definition upper_char :: "char \<Rightarrow> char" where
  "upper_char c = (case map_of (zip lower_letters upper_letters) c of None \<Rightarrow> c | Some u \<Rightarrow> u)"


definition py_lower :: "string \<Rightarrow> string" where
  "py_lower s = map lower_char s"





definition digit_char :: "nat \<Rightarrow> char" where
  "digit_char d = ''0123456789'' ! d"

function str_of_nat :: "nat \<Rightarrow> string" where
  "str_of_nat n = (if n < 10 then [digit_char n] else str_of_nat (n div 10) @ [digit_char (n mod 10)])"
  by pat_completeness auto
termination
  by (relation "measure (\<lambda>n. n)") auto

declare str_of_nat.simps [simp del]

definition str_of_int :: "int \<Rightarrow> string" where
  "str_of_int i = (if i < 0 then CHR ''-'' # str_of_nat (nat (- i)) else str_of_nat (nat i))"

text \<open>
  A metadata value is a string or a number (\<open>mapping<string, string|number>\<close>); the
  file timestamps are taken as whole numbers. \<open>py_str\<close> is \<open>str(v)\<close>, what an f-string
  prints.
\<close>

datatype val = VStr string | VInt int

fun py_str :: "val \<Rightarrow> string" where
  "py_str (VStr s) = s"
| "py_str (VInt i) = str_of_int i"

type_synonym meta = "string \<rightharpoonup> val"

record document =
  page_content :: string
  metadata :: meta

datatype error =
    KeyError
  | ValueError string
  | RuntimeError string
  | AttributeError
  | UnboundLocalError
  | OSError
  | EmbeddingError
  | BackendError string

section \<open>Document processor (\<open>agent/rag/document_processor.py\<close>)\<close>

text \<open>
  The file system is a map from paths (in the normal form \<open>str(Path(p))\<close> gives) to
  nodes. \<open>Path.name\<close> is the last component and \<open>Path.suffix\<close> the part of the name from
  its last dot, when that dot is neither the first nor the last character of the name.
\<close>

record node =
  is_dir :: bool
  content :: string
  st_size :: int
  st_ctime :: int
  st_mtime :: int

type_synonym fs = "string \<rightharpoonup> node"

definition path_name :: "string \<Rightarrow> string" where
  "path_name p = rev (takeWhile (\<lambda>c. c \<noteq> CHR ''/'') (rev p))"

definition path_suffix :: "string \<Rightarrow> string" where
  "path_suffix p =
     (let name = path_name p;
          ext = rev (takeWhile (\<lambda>c. c \<noteq> CHR ''.'') (rev name))
      in if CHR ''.'' \<in> set name \<and> ext \<noteq> [] \<and> Suc (length ext) < length name
         then CHR ''.'' # ext else [])"

text \<open>
  What the processor takes from outside the repository: the MD5 hex digest of
  \<open>hashlib\<close>, the four langchain loader classes (each either raises or returns
  Documents), whether the optional PDF and DOCX packages were importable, and
  \<open>pathlib\<close>'s globbing (\<open>path_glob fs dir recursive pattern\<close> is \<open>dir.rglob(pattern)\<close>
  or \<open>dir.glob(pattern)\<close>).
\<close>

record penv =
  md5_hexdigest :: "string \<Rightarrow> string"
  PDF_AVAILABLE :: bool
  DOCX_AVAILABLE :: bool
  TextLoader :: "fs \<Rightarrow> string \<Rightarrow> error + document list"
  UnstructuredMarkdownLoader :: "fs \<Rightarrow> string \<Rightarrow> error + document list"
  PyPDFLoader :: "fs \<Rightarrow> string \<Rightarrow> error + document list"
  Docx2txtLoader :: "fs \<Rightarrow> string \<Rightarrow> error + document list"
  path_glob :: "fs \<Rightarrow> string \<Rightarrow> bool \<Rightarrow> string \<Rightarrow> error + string list"

datatype loader = Load_text | Load_markdown | Load_pdf | Load_docx

definition supported_extensions :: "penv \<Rightarrow> (string \<times> loader) list" where
  "supported_extensions env =
     [(''.txt'', Load_text), (''.md'', Load_markdown), (''.py'', Load_text),
      (''.js'', Load_text), (''.json'', Load_text), (''.yaml'', Load_text),
      (''.yml'', Load_text), (''.xml'', Load_text), (''.html'', Load_text),
      (''.css'', Load_text), (''.sql'', Load_text)]
     @ (if PDF_AVAILABLE env then [(''.pdf'', Load_pdf)] else [])
     @ (if DOCX_AVAILABLE env then [(''.docx'', Load_docx)] else [])"

definition is_supported :: "penv \<Rightarrow> string \<Rightarrow> bool" where
  "is_supported env file_path =
     (py_lower (path_suffix file_path) \<in> set (map fst (supported_extensions env)))"

definition generate_doc_id :: "penv \<Rightarrow> string \<Rightarrow> string" where
  "generate_doc_id env content_arg = md5_hexdigest env content_arg"

definition load_text :: "penv \<Rightarrow> fs \<Rightarrow> string \<Rightarrow> document list" where
  "load_text env fs file_path =
     (case TextLoader env fs file_path of Inl e \<Rightarrow> [] | Inr ds \<Rightarrow> ds)"

definition load_markdown :: "penv \<Rightarrow> fs \<Rightarrow> string \<Rightarrow> document list" where
  "load_markdown env fs file_path =
     (case UnstructuredMarkdownLoader env fs file_path of
        Inl e \<Rightarrow> load_text env fs file_path
      | Inr ds \<Rightarrow> ds)"

definition load_pdf :: "penv \<Rightarrow> fs \<Rightarrow> string \<Rightarrow> document list" where
  "load_pdf env fs file_path =
     (case PyPDFLoader env fs file_path of Inl e \<Rightarrow> [] | Inr ds \<Rightarrow> ds)"

definition load_docx :: "penv \<Rightarrow> fs \<Rightarrow> string \<Rightarrow> document list" where
  "load_docx env fs file_path =
     (case Docx2txtLoader env fs file_path of Inl e \<Rightarrow> [] | Inr ds \<Rightarrow> ds)"

fun loader_func :: "loader \<Rightarrow> penv \<Rightarrow> fs \<Rightarrow> string \<Rightarrow> document list" where
  "loader_func Load_text = load_text"
| "loader_func Load_markdown = load_markdown"
| "loader_func Load_pdf = load_pdf"
| "loader_func Load_docx = load_docx"

text \<open>\<open>if metadata: doc_metadata.update(metadata)\<close>: nothing for \<open>None\<close> and for \<open>{}\<close>.\<close>

definition update_opt :: "meta \<Rightarrow> meta option \<Rightarrow> meta" where
  "update_opt m extra = (case extra of None \<Rightarrow> m | Some e \<Rightarrow> m ++ e)"

definition file_metadata :: "penv \<Rightarrow> node \<Rightarrow> string \<Rightarrow> meta" where
  "file_metadata env nd file_path =
     [''source'' \<mapsto> VStr file_path,
      ''filename'' \<mapsto> VStr (path_name file_path),
      ''file_extension'' \<mapsto> VStr (path_suffix file_path),
      ''doc_id'' \<mapsto> VStr (generate_doc_id env file_path),
      ''file_size'' \<mapsto> VInt (st_size nd),
      ''created_at'' \<mapsto> VInt (st_ctime nd),
      ''modified_at'' \<mapsto> VInt (st_mtime nd)]"

text \<open>
  The body of \<open>process_file\<close>'s \<open>try\<close>: the document id is generated from
  \<open>str(file_path)\<close>, before the file is loaded. \<open>process_file\<close> itself turns every
  exception of the body into the empty list.
\<close>

definition process_file_body ::
  "penv \<Rightarrow> fs \<Rightarrow> string \<Rightarrow> meta option \<Rightarrow> error + document list" where
  "process_file_body env fs file_path extra =
     (case fs file_path of
        None \<Rightarrow> Inr []
      | Some nd \<Rightarrow>
          if is_supported env file_path then
            (let doc_metadata = update_opt (file_metadata env nd file_path) extra
             in case map_of (supported_extensions env) (py_lower (path_suffix file_path)) of
                  None \<Rightarrow> Inl KeyError
                | Some l \<Rightarrow>
                    Inr (map (\<lambda>doc. doc\<lparr>metadata := metadata doc ++ doc_metadata\<rparr>)
                           (loader_func l env fs file_path)))
          else Inr [])"

definition process_file :: "penv \<Rightarrow> fs \<Rightarrow> string \<Rightarrow> meta option \<Rightarrow> document list" where
  "process_file env fs file_path extra =
     (case process_file_body env fs file_path extra of Inl e \<Rightarrow> [] | Inr ds \<Rightarrow> ds)"

definition process_text :: "penv \<Rightarrow> string \<Rightarrow> meta option \<Rightarrow> document" where
  "process_text env text extra =
     \<lparr>page_content = text,
      metadata = update_opt
        [''source'' \<mapsto> VStr ''text_input'',
         ''doc_id'' \<mapsto> VStr (generate_doc_id env text),
         ''content_length'' \<mapsto> VInt (int (length text))] extra\<rparr>"








section \<open>Vector store (\<open>agent/rag/vector_store.py\<close>)\<close>

text \<open>
  The two backends are libraries. A collection is the list of its entries in insertion
  order, each a chunk with its embedding and the identifier the backend gave it. What
  the store takes from outside: the embedding model (\<open>None\<close>: the call raises), the
  backend's score of a stored vector against the query vector, the values
  \<open>uuid.uuid4()\<close> returns (\<open>uuid4_hex env n\<close> and \<open>uuid4_str env n\<close> print the
  \<open>n\<close>-th one drawn), the text splitter, the format \<open>{score:.4f}\<close>, and which backend
  calls raise.
\<close>

type_synonym vec = "real list"

record entry =
  entry_id :: string
  entry_vec :: vec
  entry_doc :: document

datatype backend_call =
    Call_add | Call_search | Call_delete | Call_count
  | Call_save_local | Call_delete_collection | Call_rmtree

record venv =
  embed :: "string \<Rightarrow> vec option"
  score :: "vec \<Rightarrow> vec \<Rightarrow> real"
  uuid4_hex :: "nat \<Rightarrow> string"
  uuid4_str :: "nat \<Rightarrow> string"
  split_text :: "string \<Rightarrow> string list"
  format_4f :: "real \<Rightarrow> string"
  backend_raises :: "backend_call \<Rightarrow> bool"

text \<open>
  The persisted directory of the Chroma backend either opens as a collection or makes
  \<open>Chroma(...)\<close> raise with a message; that of the FAISS backend holds a loadable index
  or none.
\<close>

datatype chroma_state = Chroma_ok "entry list" | Chroma_broken string

record vstore =
  store_type :: string
  collection_name :: string
  persist_directory :: string
  embedding_model :: string
  vector_store :: "entry list option"
  chroma_dir :: chroma_state
  faiss_dir :: "entry list option"
  uuid_next :: nat

fun is_prefix :: "string \<Rightarrow> string \<Rightarrow> bool" where
  "is_prefix [] ys = True"
| "is_prefix (x # xs) [] = False"
| "is_prefix (x # xs) (y # ys) = (x = y \<and> is_prefix xs ys)"

text \<open>\<open>sub in s\<close> on strings.\<close>

fun py_in :: "string \<Rightarrow> string \<Rightarrow> bool" where
  "py_in sub [] = (sub = [])"
| "py_in sub (c # cs) = (is_prefix sub (c # cs) \<or> py_in sub cs)"

text \<open>
  The backend's \<open>add_documents\<close>: embed every text, then store each chunk under a fresh
  identifier. \<open>n\<close> is the number of uuids drawn so far.
\<close>

definition backend_add :: "venv \<Rightarrow> nat \<Rightarrow> document list \<Rightarrow> error + entry list" where
  "backend_add env n docs =
     (case those (map (\<lambda>d. embed env (page_content d)) docs) of
        None \<Rightarrow> Inl EmbeddingError
      | Some vs \<Rightarrow>
          if backend_raises env Call_add then Inl (BackendError ''add_documents'')
          else Inr (map (\<lambda>(i, d, v). \<lparr>entry_id = uuid4_str env (n + i), entry_vec = v, entry_doc = d\<rparr>)
                      (enumerate 0 (zip docs vs))))"

text \<open>The backend's search: the \<open>k\<close> entries with the closest score, closest first.\<close>

definition backend_search ::
  "venv \<Rightarrow> entry list \<Rightarrow> string \<Rightarrow> nat \<Rightarrow> error + (document \<times> real) list" where
  "backend_search env es query k =
     (case embed env query of
        None \<Rightarrow> Inl EmbeddingError
      | Some qv \<Rightarrow>
          if backend_raises env Call_search then Inl (BackendError ''similarity_search'')
          else Inr (take k (sort_key snd (map (\<lambda>e. (entry_doc e, score env qv (entry_vec e))) es))))"

definition dummy_doc :: document where
  "dummy_doc =
     \<lparr>page_content = ''Dummy document for initialization'',
      metadata = [''source'' \<mapsto> VStr ''initialization'', ''doc_id'' \<mapsto> VStr ''dummy'']\<rparr>"

text \<open>
  \<open>_init_chroma\<close>: open the collection; on a message that looks like a schema mismatch
  remove the directory and open an empty one; any other error is raised again.
\<close>

definition init_chroma :: "venv \<Rightarrow> vstore \<Rightarrow> error option \<times> vstore" where
  "init_chroma env s =
     (case chroma_dir s of
        Chroma_ok es \<Rightarrow> (None, s\<lparr>vector_store := Some es\<rparr>)
      | Chroma_broken msg \<Rightarrow>
          if py_in ''no such column'' msg \<or> py_in ''OperationalError'' msg \<or> py_in ''schema'' msg
          then (if backend_raises env Call_rmtree then (Some OSError, s)
                else (None, s\<lparr>chroma_dir := Chroma_ok [], vector_store := Some []\<rparr>))
          else (Some (RuntimeError msg), s))"

text \<open>
  \<open>_init_faiss\<close>: the index directory always exists after \<open>mkdir\<close>, so the load is always
  tried; when it raises the handle is set to \<open>None\<close>, and a handle that is \<open>None\<close> is
  replaced by a new index built from the dummy document.
\<close>

definition init_faiss :: "venv \<Rightarrow> vstore \<Rightarrow> error option \<times> vstore" where
  "init_faiss env s =
     (let s1 = (case faiss_dir s of
                  Some es \<Rightarrow> s\<lparr>vector_store := Some es\<rparr>
                | None \<Rightarrow> s\<lparr>vector_store := None\<rparr>)
      in case vector_store s1 of
           Some es \<Rightarrow> (None, s1)
         | None \<Rightarrow>
             (case backend_add env (uuid_next s1) [dummy_doc] of
                Inl e \<Rightarrow> (Some e, s1)
              | Inr new \<Rightarrow>
                  (None, s1\<lparr>vector_store := Some new, uuid_next := uuid_next s1 + length new\<rparr>)))"

definition initialize_vector_store :: "venv \<Rightarrow> vstore \<Rightarrow> error option \<times> vstore" where
  "initialize_vector_store env s =
     (if store_type s = ''chroma'' then
        (case init_chroma env s of
           (None, s') \<Rightarrow> (None, s')
         | (Some e, s') \<Rightarrow> init_faiss env (s'\<lparr>store_type := ''faiss''\<rparr>))
      else if store_type s = ''faiss'' then init_faiss env s
      else (Some (ValueError ''Unsupported vector store type''), s))"

text \<open>
  The constructor, given what the persisted directory holds and the number of uuids
  drawn so far: \<open>Inl\<close> when it raises.
\<close>

definition new_vector_store ::
  "venv \<Rightarrow> chroma_state \<Rightarrow> entry list option \<Rightarrow> nat \<Rightarrow> string \<Rightarrow> string \<Rightarrow> string \<Rightarrow> string
     \<Rightarrow> error + vstore" where
  "new_vector_store env cdir fdir n stype pdir model cname =
     (case initialize_vector_store env
             \<lparr>store_type = py_lower stype, collection_name = cname, persist_directory = pdir,
              embedding_model = model, vector_store = None, chroma_dir = cdir,
              faiss_dir = fdir, uuid_next = n\<rparr> of
        (None, s) \<Rightarrow> Inr s
      | (Some e, s) \<Rightarrow> Inl e)"

text \<open>
  Chunking in \<open>add_documents\<close>. \<open>split_documents([doc])\<close> gives every piece of the text a
  copy of the Document's metadata. The four chunk keys are then written over it;
  \<open>uuid.uuid4()\<close> is called for each of the two \<open>get\<close> defaults of every chunk, whether
  or not the default is used.
\<close>

definition split_documents :: "venv \<Rightarrow> document \<Rightarrow> document list" where
  "split_documents env doc =
     map (\<lambda>t. \<lparr>page_content = t, metadata = metadata doc\<rparr>) (split_text env (page_content doc))"

definition get_doc_id :: "document \<Rightarrow> string \<Rightarrow> val" where
  "get_doc_id doc dflt = (case metadata doc ''doc_id'' of None \<Rightarrow> VStr dflt | Some v \<Rightarrow> v)"

definition stamp_chunk :: "venv \<Rightarrow> document \<Rightarrow> nat \<Rightarrow> nat \<Rightarrow> nat \<Rightarrow> document \<Rightarrow> document" where
  "stamp_chunk env doc n_chunks n i chunk =
     chunk\<lparr>metadata := metadata chunk ++
       [''chunk_id'' \<mapsto> VStr (py_str (get_doc_id doc (uuid4_hex env (n + 2 * i))) @ ''_'' @ str_of_nat i),
        ''chunk_index'' \<mapsto> VInt (int i),
        ''total_chunks'' \<mapsto> VInt (int n_chunks),
        ''parent_doc_id'' \<mapsto> get_doc_id doc (uuid4_hex env (n + 2 * i + 1))]\<rparr>"

definition chunk_document :: "venv \<Rightarrow> nat \<Rightarrow> document \<Rightarrow> document list" where
  "chunk_document env n doc =
     (let chunks = split_documents env doc
      in map (\<lambda>(i, chunk). stamp_chunk env doc (length chunks) n i chunk) (enumerate 0 chunks))"

fun chunk_all :: "venv \<Rightarrow> nat \<Rightarrow> document list \<Rightarrow> document list \<times> nat" where
  "chunk_all env n [] = ([], n)"
| "chunk_all env n (doc # docs) =
     (let cs = chunk_document env n doc;
          (rest, n') = chunk_all env (n + 2 * length cs) docs
      in (cs @ rest, n'))"

text \<open>
  \<open>add_documents\<close> raises again whatever its body raises, so the result is a sum; the
  store is returned with it, since a failure of \<open>save_local\<close> comes after the index in
  memory has grown.
\<close>

definition add_documents ::
  "venv \<Rightarrow> vstore \<Rightarrow> document list \<Rightarrow> (error + string list) \<times> vstore" where
  "add_documents env s documents =
     (if documents = [] then (Inr [], s)
      else
        (let (chunked_docs, n) = chunk_all env (uuid_next s) documents;
             s1 = s\<lparr>uuid_next := n\<rparr>
         in if store_type s = ''chroma'' then
              (case vector_store s of
                 None \<Rightarrow> (Inl AttributeError, s1)
               | Some es \<Rightarrow>
                   (case backend_add env n chunked_docs of
                      Inl e \<Rightarrow> (Inl e, s1)
                    | Inr new \<Rightarrow>
                        (Inr (map entry_id new),
                         s1\<lparr>vector_store := Some (es @ new), chroma_dir := Chroma_ok (es @ new),
                            uuid_next := n + length new\<rparr>)))
            else if store_type s = ''faiss'' then
              (case vector_store s of
                 None \<Rightarrow> (Inl AttributeError, s1)
               | Some es \<Rightarrow>
                   (case backend_add env n chunked_docs of
                      Inl e \<Rightarrow> (Inl e, s1)
                    | Inr new \<Rightarrow>
                        (let s2 = s1\<lparr>vector_store := Some (es @ new), uuid_next := n + length new\<rparr>
                         in if backend_raises env Call_save_local
                            then (Inl (BackendError ''save_local''), s2)
                            else (Inr (map entry_id new), s2\<lparr>faiss_dir := Some (es @ new)\<rparr>))))
            else (Inl UnboundLocalError, s1)))"

text \<open>
  A metadata filter is a dictionary, here its items; \<open>if filter_metadata:\<close> is false for
  \<open>None\<close> and for the empty dictionary. Chroma takes the filter into the search; for
  FAISS the \<open>k\<close> results are filtered afterwards.
\<close>

definition filter_items :: "(string \<times> val) list option \<Rightarrow> (string \<times> val) list" where
  "filter_items f = (case f of None \<Rightarrow> [] | Some items \<Rightarrow> items)"

definition matches_filter :: "(string \<times> val) list \<Rightarrow> document \<Rightarrow> bool" where
  "matches_filter items doc = list_all (\<lambda>(key, value). metadata doc key = Some value) items"

definition similarity_search_with_score_body ::
  "venv \<Rightarrow> vstore \<Rightarrow> string \<Rightarrow> nat \<Rightarrow> (string \<times> val) list option
     \<Rightarrow> error + (document \<times> real) list" where
  "similarity_search_with_score_body env s query k filter_metadata =
     (case vector_store s of
        None \<Rightarrow> Inr []
      | Some es \<Rightarrow>
          if store_type s = ''chroma'' then
            (if filter_items filter_metadata \<noteq> []
             then backend_search env
                    (filter (\<lambda>e. matches_filter (filter_items filter_metadata) (entry_doc e)) es)
                    query k
             else backend_search env es query k)
          else if store_type s = ''faiss'' then
            (case backend_search env es query k of
               Inl e \<Rightarrow> Inl e
             | Inr results \<Rightarrow>
                 if filter_items filter_metadata \<noteq> []
                 then Inr (filter (\<lambda>(doc, sc). matches_filter (filter_items filter_metadata) doc)
                             results)
                 else Inr results)
          else Inl UnboundLocalError)"

definition similarity_search_with_score ::
  "venv \<Rightarrow> vstore \<Rightarrow> string \<Rightarrow> nat \<Rightarrow> (string \<times> val) list option \<Rightarrow> (document \<times> real) list" where
  "similarity_search_with_score env s query k filter_metadata =
     (case similarity_search_with_score_body env s query k filter_metadata of
        Inl e \<Rightarrow> []
      | Inr results \<Rightarrow> results)"

definition similarity_search_body ::
  "venv \<Rightarrow> vstore \<Rightarrow> string \<Rightarrow> nat \<Rightarrow> (string \<times> val) list option \<Rightarrow> error + document list" where
  "similarity_search_body env s query k filter_metadata =
     (case vector_store s of
        None \<Rightarrow> Inr []
      | Some es \<Rightarrow>
          if store_type s = ''chroma'' then
            (case (if filter_items filter_metadata \<noteq> []
                   then backend_search env
                          (filter (\<lambda>e. matches_filter (filter_items filter_metadata) (entry_doc e)) es)
                          query k
                   else backend_search env es query k) of
               Inl e \<Rightarrow> Inl e
             | Inr results \<Rightarrow> Inr (map fst results))
          else if store_type s = ''faiss'' then
            (case backend_search env es query k of
               Inl e \<Rightarrow> Inl e
             | Inr results \<Rightarrow>
                 if filter_items filter_metadata \<noteq> []
                 then Inr (filter (matches_filter (filter_items filter_metadata)) (map fst results))
                 else Inr (map fst results))
          else Inl UnboundLocalError)"

definition similarity_search ::
  "venv \<Rightarrow> vstore \<Rightarrow> string \<Rightarrow> nat \<Rightarrow> (string \<times> val) list option \<Rightarrow> document list" where
  "similarity_search env s query k filter_metadata =
     (case similarity_search_body env s query k filter_metadata of
        Inl e \<Rightarrow> []
      | Inr results \<Rightarrow> results)"

text \<open>
  \<open>delete_documents\<close>: the Chroma backend deletes the entries with the given identifiers;
  for FAISS nothing is done. Every exception gives \<open>False\<close>.
\<close>

definition delete_documents :: "venv \<Rightarrow> vstore \<Rightarrow> string list \<Rightarrow> bool \<times> vstore" where
  "delete_documents env s doc_ids =
     (if store_type s = ''chroma'' then
        (case vector_store s of
           None \<Rightarrow> (False, s)
         | Some es \<Rightarrow>
             if backend_raises env Call_delete then (False, s)
             else (let kept = filter (\<lambda>e. entry_id e \<notin> set doc_ids) es
                   in (True, s\<lparr>vector_store := Some kept, chroma_dir := Chroma_ok kept\<rparr>)))
      else if store_type s = ''faiss'' then (False, s)
      else (True, s))"

text \<open>
  The information dictionary, as its items in insertion order. The count is
  \<open>collection.count()\<close> for Chroma and the attribute \<open>index.ntotal\<close> for FAISS;
  \<open>"Unknown"\<close> when reading it raises.
\<close>

definition chroma_count :: "venv \<Rightarrow> vstore \<Rightarrow> val" where
  "chroma_count env s =
     (case vector_store s of
        None \<Rightarrow> VStr ''Unknown''
      | Some es \<Rightarrow>
          if backend_raises env Call_count then VStr ''Unknown'' else VInt (int (length es)))"

definition faiss_ntotal :: "vstore \<Rightarrow> val" where
  "faiss_ntotal s =
     (case vector_store s of None \<Rightarrow> VStr ''Unknown'' | Some es \<Rightarrow> VInt (int (length es)))"

definition get_collection_info :: "venv \<Rightarrow> vstore \<Rightarrow> (string \<times> val) list" where
  "get_collection_info env s =
     [(''store_type'', VStr (store_type s)),
      (''collection_name'', VStr (collection_name s)),
      (''persist_directory'', VStr (persist_directory s)),
      (''embedding_model'', VStr (embedding_model s))]
     @ (if store_type s = ''chroma'' then [(''document_count'', chroma_count env s)]
        else if store_type s = ''faiss'' then [(''document_count'', faiss_ntotal s)]
        else [])"

text \<open>
  \<open>clear_collection\<close>: Chroma deletes the collection and opens it again; FAISS removes
  the index directory and runs \<open>_init_faiss\<close>. Every exception gives \<open>False\<close>.
\<close>

definition clear_collection :: "venv \<Rightarrow> vstore \<Rightarrow> bool \<times> vstore" where
  "clear_collection env s =
     (if store_type s = ''chroma'' then
        (case vector_store s of
           None \<Rightarrow> (False, s)
         | Some es \<Rightarrow>
             if backend_raises env Call_delete_collection then (False, s)
             else (case init_chroma env (s\<lparr>chroma_dir := Chroma_ok []\<rparr>) of
                     (None, s') \<Rightarrow> (True, s')
                   | (Some e, s') \<Rightarrow> (False, s')))
      else if store_type s = ''faiss'' then
        (if backend_raises env Call_rmtree then (False, s)
         else (case init_faiss env (s\<lparr>faiss_dir := None\<rparr>) of
                 (None, s') \<Rightarrow> (True, s')
               | (Some e, s') \<Rightarrow> (False, s')))
      else (True, s))"

section \<open>Retrieval and management tools (\<open>agent/rag/retrieval_tool.py\<close>)\<close>

definition newline :: string where
  "newline = [CHR 0x0A]"

definition quote :: string where
  "quote = [CHR 0x27]"

fun py_join :: "string \<Rightarrow> string list \<Rightarrow> string" where
  "py_join sep [] = []"
| "py_join sep [x] = x"
| "py_join sep (x # y # ys) = x @ sep @ py_join sep (y # ys)"


text \<open>
  The content preview of a result block: the content is stripped first, and what is
  left is cut to 300 characters, with the marker, when it is longer than 300.
\<close>

definition content_preview :: "string \<Rightarrow> string" where
  "content_preview pc =
     (let c = py_strip pc in if length c > 300 then take 300 c @ ''...'' else c)"

definition metadata_lines :: "meta \<Rightarrow> string list" where
  "metadata_lines m =
     (case m ''source'' of None \<Rightarrow> [] | Some v \<Rightarrow> [''Source: '' @ py_str v])
     @ (case m ''filename'' of None \<Rightarrow> [] | Some v \<Rightarrow> [''File: '' @ py_str v])
     @ (case m ''chunk_index'' of
          None \<Rightarrow> []
        | Some v \<Rightarrow>
            [''Chunk: '' @ py_str v @ ''/''
               @ (case m ''total_chunks'' of None \<Rightarrow> ''?'' | Some t \<Rightarrow> py_str t)])"

definition result_block :: "string \<Rightarrow> document \<Rightarrow> string list" where
  "result_block header doc =
     [header] @ metadata_lines (metadata doc)
     @ [''Content: '' @ content_preview (page_content doc), []]"

definition no_documents_found :: "string \<Rightarrow> string" where
  "no_documents_found query = ''No documents found for query: '' @ quote @ query @ quote"

definition format_results :: "document list \<Rightarrow> string \<Rightarrow> string" where
  "format_results results query =
     (if results = [] then no_documents_found query
      else py_join newline
             ((''Found '' @ str_of_nat (length results) @ '' relevant documents for query: ''
                 @ quote @ query @ quote @ newline)
              # concat (map (\<lambda>(i, doc). result_block (''--- Document '' @ str_of_nat i @ '' ---'') doc)
                          (enumerate 1 results))))"

definition format_scored_results :: "venv \<Rightarrow> (document \<times> real) list \<Rightarrow> string \<Rightarrow> string" where
  "format_scored_results env results query =
     (if results = [] then no_documents_found query
      else py_join newline
             ((''Found '' @ str_of_nat (length results) @ '' relevant documents for query: ''
                 @ quote @ query @ quote @ '' (with relevance scores)'' @ newline)
              # concat (map (\<lambda>(i, doc, sc).
                              result_block (''--- Document '' @ str_of_nat i @ '' (Score: ''
                                              @ format_4f env sc @ '') ---'') doc)
                          (enumerate 1 results))))"

text \<open>
  \<open>_retrieve_documents_structured\<close>: both searches return a list whatever happens, and
  the formatters are total, so the handler of the \<open>try\<close> is never entered.
\<close>

definition retrieve_documents_structured ::
  "venv \<Rightarrow> vstore \<Rightarrow> string \<Rightarrow> nat \<Rightarrow> bool \<Rightarrow> (string \<times> val) list option \<Rightarrow> string" where
  "retrieve_documents_structured env s query k with_scores filter_metadata =
     (if with_scores
      then format_scored_results env
             (similarity_search_with_score env s query k filter_metadata) query
      else format_results (similarity_search env s query k filter_metadata) query)"










section \<open>Chunker\<close>

text \<open>
  \<open>VectorStore.__init__\<close> configures langchain's \<open>RecursiveCharacterTextSplitter\<close>
  (\<open>chunk_size=1000\<close>, \<open>chunk_overlap=200\<close>, separators paragraph break, line break,
  space, empty string) and \<open>add_documents\<close> calls it. The class is a library outside
  the repository's sources, so the chunker below follows section 4.2 of the
  specification.
\<close>

text \<open>
  Modelled from the spec: the hard cut of the Chunker (the splitter class is not in the
  sources). A text that exceeds \<open>chunkSize\<close> where no separator is left is cut into
  windows of \<open>chunkSize\<close> characters, each starting \<open>chunkOverlap\<close> characters before
  the end of the one before.
\<close>

function hard_cut :: "nat \<Rightarrow> nat \<Rightarrow> string \<Rightarrow> string list" where
  "hard_cut chunk_size chunk_overlap t =
     (if length t \<le> chunk_size \<or> chunk_size \<le> chunk_overlap then [t]
      else take chunk_size t # hard_cut chunk_size chunk_overlap (drop (chunk_size - chunk_overlap) t))"
  by pat_completeness auto
termination
  by (relation "measure (\<lambda>(cs, ov, t). length t)") auto

declare hard_cut.simps [simp del]

text \<open>
  Modelled from the spec: splitting a text on a separator of the Chunker's separator
  list (the splitter class is not in the sources); the pieces are what lies between
  the occurrences of the separator.
\<close>

function split_on :: "string \<Rightarrow> string \<Rightarrow> string list" where
  "split_on sep [] = [[]]"
| "split_on sep (c # cs) =
     (if sep \<noteq> [] \<and> is_prefix sep (c # cs)
      then [] # split_on sep (drop (length sep) (c # cs))
      else (case split_on sep cs of
              [] \<Rightarrow> [[c]]
            | p # ps \<Rightarrow> (c # p) # ps))"
  by pat_completeness auto
termination
  by (relation "measure (\<lambda>(sep, t). length t)") (auto simp: neq_Nil_conv)

text \<open>
  Modelled from the spec: the Chunker (the splitter class is not in the sources). A
  text no longer than \<open>chunkSize\<close> is one chunk; a longer one is split on the coarsest
  separator that occurs in it, a piece that still exceeds the limit is split with the
  next finer separator, and where no separator is left, or the empty separator is
  reached, the text is hard-cut.
\<close>

fun chunker :: "nat \<Rightarrow> nat \<Rightarrow> string list \<Rightarrow> string \<Rightarrow> string list" where
  "chunker chunk_size chunk_overlap [] t =
     (if length t \<le> chunk_size then [t] else hard_cut chunk_size chunk_overlap t)"
| "chunker chunk_size chunk_overlap (sep # seps) t =
     (if length t \<le> chunk_size then [t]
      else if sep = [] then hard_cut chunk_size chunk_overlap t
      else if py_in sep t
           then concat (map (chunker chunk_size chunk_overlap seps) (split_on sep t))
           else chunker chunk_size chunk_overlap seps t)"

text \<open>
  Modelled from the spec: the Chunker at the configuration of \<open>VectorStore.__init__\<close>
  (the splitter class is not in the sources).
\<close>

definition text_splitter :: "string \<Rightarrow> string list" where
  "text_splitter = chunker 1000 200 [newline @ newline, newline, '' '', []]"

text \<open>
  Concrete surroundings for evaluating the processor: a loader that returns a file's
  text as one Document with its \<open>source\<close>, the way langchain's \<open>TextLoader\<close> does for a
  readable file, no optional packages, and a digest function \<open>H\<close>.
\<close>

definition text_file_loader :: "fs \<Rightarrow> string \<Rightarrow> error + document list" where
  "text_file_loader fs file_path =
     (case fs file_path of
        None \<Rightarrow> Inl (RuntimeError ''Error loading'')
      | Some nd \<Rightarrow>
          if is_dir nd then Inl (RuntimeError ''Error loading'')
          else Inr [\<lparr>page_content = content nd,
                     metadata = [''source'' \<mapsto> VStr file_path]\<rparr>])"

definition penv_of :: "(string \<Rightarrow> string) \<Rightarrow> penv" where
  "penv_of H =
     \<lparr>md5_hexdigest = H, PDF_AVAILABLE = False, DOCX_AVAILABLE = False,
      TextLoader = text_file_loader,
      UnstructuredMarkdownLoader = (\<lambda>fs p. Inl (RuntimeError ''unstructured is not installed'')),
      PyPDFLoader = (\<lambda>fs p. Inl (RuntimeError ''pypdf is not installed'')),
      Docx2txtLoader = (\<lambda>fs p. Inl (RuntimeError ''docx2txt is not installed'')),
      path_glob = (\<lambda>fs d r pat. Inr [])\<rparr>"

definition text_node :: "string \<Rightarrow> node" where
  "text_node s = \<lparr>is_dir = False, content = s, st_size = int (length s), st_ctime = 0, st_mtime = 0\<rparr>"

definition doc_id_of :: "document \<Rightarrow> val option" where
  "doc_id_of doc = metadata doc ''doc_id''"


text \<open>
  Concrete surroundings for evaluating the store: an embedding that maps a text to its
  length, the distance of two such vectors as the score (a whole number, printed with
  four zero decimals), the \<open>n\<close>-th uuid printed from \<open>n\<close>, the chunker above as the text
  splitter, and backend calls that raise as \<open>bad\<close> says.
\<close>

definition venv_of :: "(string \<Rightarrow> vec option) \<Rightarrow> (backend_call \<Rightarrow> bool) \<Rightarrow> venv" where
  "venv_of emb bad =
     \<lparr>embed = emb,
      score = (\<lambda>q v. \<bar>sum_list q - sum_list v\<bar>),
      uuid4_hex = (\<lambda>n. ''uuid'' @ str_of_nat n),
      uuid4_str = (\<lambda>n. ''id-'' @ str_of_nat n),
      split_text = text_splitter,
      format_4f = (\<lambda>r. str_of_nat (nat \<lfloor>r\<rfloor>) @ ''.0000''),
      backend_raises = bad\<rparr>"

definition length_embedding :: "string \<Rightarrow> vec option" where
  "length_embedding t = Some [real (length t)]"

definition venv_ok :: venv where
  "venv_ok = venv_of length_embedding (\<lambda>c. False)"

definition empty_store :: "string \<Rightarrow> vstore" where
  "empty_store stype =
     \<lparr>store_type = stype, collection_name = ''langchain_agent_docs'',
      persist_directory = ''data/vector_store'',
      embedding_model = ''sentence-transformers/all-MiniLM-L6-v2'',
      vector_store = Some [], chroma_dir = Chroma_ok [], faiss_dir = None, uuid_next = 0\<rparr>"

definition dummy_entry :: entry where
  "dummy_entry = \<lparr>entry_id = ''id-0'', entry_vec = [33], entry_doc = dummy_doc\<rparr>"

definition faiss_fresh :: vstore where
  "faiss_fresh = (empty_store ''faiss'')\<lparr>vector_store := Some [dummy_entry], uuid_next := 1\<rparr>"

definition hello_doc :: document where
  "hello_doc = \<lparr>page_content = ''hello'', metadata = [''doc_id'' \<mapsto> VStr ''d1'']\<rparr>"

definition plain_doc :: document where
  "plain_doc = \<lparr>page_content = ''hello'', metadata = [''source'' \<mapsto> VStr ''test1'']\<rparr>"

definition hello_entry :: entry where
  "hello_entry = \<lparr>entry_id = ''id-0'', entry_vec = [5], entry_doc = hello_doc\<rparr>"

definition chroma_one :: vstore where
  "chroma_one =
     (empty_store ''chroma'')\<lparr>vector_store := Some [hello_entry],
                              chroma_dir := Chroma_ok [hello_entry], uuid_next := 1\<rparr>"

definition faiss_two :: vstore where
  "faiss_two =
     faiss_fresh\<lparr>vector_store := Some [dummy_entry, hello_entry],
                 faiss_dir := Some [dummy_entry, hello_entry]\<rparr>"

definition padded_content :: string where
  "padded_content = CHR ''x'' # replicate 300 (CHR '' '')"

definition padded_entry :: entry where
  "padded_entry =
     \<lparr>entry_id = ''id-0'', entry_vec = [301],
      entry_doc = \<lparr>page_content = padded_content, metadata = Map.empty\<rparr>\<rparr>"

definition padded_store :: vstore where
  "padded_store =
     (empty_store ''faiss'')\<lparr>vector_store := Some [padded_entry],
                             faiss_dir := Some [padded_entry]\<rparr>"

section \<open>Evaluation rules and auxiliary facts\<close>

lemmas str_defs = py_lower_def lower_char_def upper_char_def upper_letters_def lower_letters_def
  py_strip_def isspace_def whitespace_def path_suffix_def path_name_def

lemmas penv_defs = penv_of_def text_file_loader_def text_node_def supported_extensions_def
  is_supported_def generate_doc_id_def load_text_def load_markdown_def load_pdf_def load_docx_def
  update_opt_def file_metadata_def doc_id_of_def

lemmas venv_defs = venv_of_def venv_ok_def length_embedding_def empty_store_def

lemmas store_defs = faiss_fresh_def faiss_two_def chroma_one_def dummy_entry_def hello_entry_def
  hello_doc_def plain_doc_def

lemma backend_search_results:
  assumes "backend_search env es query k = Inr results"
  shows "set (map fst results) \<subseteq> entry_doc ` set es" and "length results \<le> k"
proof -
  from assms obtain qv where
    r: "results = take k (sort_key snd (map (\<lambda>e. (entry_doc e, score env qv (entry_vec e))) es))"
    by (auto simp: backend_search_def split: option.splits if_splits)
  have "set results \<subseteq> set (map (\<lambda>e. (entry_doc e, score env qv (entry_vec e))) es)"
    unfolding r by (rule order_trans [OF set_take_subset]) simp
  then show "set (map fst results) \<subseteq> entry_doc ` set es"
    by auto
  show "length results \<le> k"
    by (simp add: r)
qed

lemma body_chroma:
  assumes "store_type s = ''chroma''" and "vector_store s = Some es"
  shows "similarity_search_body env s query k f =
           (case backend_search env
                   (if filter_items f \<noteq> []
                    then filter (\<lambda>e. matches_filter (filter_items f) (entry_doc e)) es else es)
                   query k of
              Inl e \<Rightarrow> Inl e
            | Inr rs \<Rightarrow> Inr (map fst rs))"
  using assms by (simp add: similarity_search_body_def)

lemma body_faiss:
  assumes "store_type s = ''faiss''" and "vector_store s = Some es"
  shows "similarity_search_body env s query k f =
           (case backend_search env es query k of
              Inl e \<Rightarrow> Inl e
            | Inr rs \<Rightarrow>
                Inr (if filter_items f \<noteq> []
                     then filter (matches_filter (filter_items f)) (map fst rs) else map fst rs))"
  using assms by (simp add: similarity_search_body_def split: sum.splits)

lemma body_other:
  assumes "store_type s \<noteq> ''chroma''" and "store_type s \<noteq> ''faiss''" and "vector_store s = Some es"
  shows "similarity_search_body env s query k f = Inl UnboundLocalError"
  using assms by (simp add: similarity_search_body_def)

lemma search_within_collection:
  assumes "similarity_search_body env s query k f = Inr results" and "vector_store s = Some es"
  shows "set results \<subseteq> entry_doc ` set es"
proof -
  let ?items = "filter_items f"
  let ?sel = "if ?items \<noteq> [] then filter (\<lambda>e. matches_filter ?items (entry_doc e)) es else es"
  consider (chroma) "store_type s = ''chroma''" | (faiss) "store_type s = ''faiss''"
    | (other) "store_type s \<noteq> ''chroma''" "store_type s \<noteq> ''faiss''"
    by blast
  then show ?thesis
  proof cases
    case chroma
    from assms(1) obtain rs where rs: "backend_search env ?sel query k = Inr rs" and "results = map fst rs"
      unfolding body_chroma [OF chroma assms(2)] by (cases "backend_search env ?sel query k") auto
    with backend_search_results(1) [OF rs] have a: "set results \<subseteq> entry_doc ` set ?sel"
      by simp
    have "entry_doc ` set ?sel \<subseteq> entry_doc ` set es"
      by (rule image_mono) simp
    with a show ?thesis
      by (rule order_trans)
  next
    case faiss
    from assms(1) obtain rs where rs: "backend_search env es query k = Inr rs"
      and r: "results = (if ?items \<noteq> [] then filter (matches_filter ?items) (map fst rs) else map fst rs)"
      unfolding body_faiss [OF faiss assms(2)] by (cases "backend_search env es query k") auto
    from r have "set results \<subseteq> set (map fst rs)"
      by (cases "?items = []") auto
    with backend_search_results(1) [OF rs] show ?thesis
      by blast
  next
    case other
    with assms show ?thesis
      by (simp add: body_other)
  qed
qed

section \<open>Document identifiers\<close>

text \<open>
  Claim C1. The \<open>doc_id\<close> of every Document the processor produces is a hash of the
  Document's content; \<open>processFile\<close> derives it from the content of the loaded file.

  \<open>process_file\<close> passes \<open>str(file_path)\<close> to \<open>_generate_doc_id\<close>, so the identifier is the
  digest of the path: a file \<open>notes.txt\<close> holding \<open>alpha\<close> and the same file holding
  \<open>beta\<close> both give the digest of \<open>notes.txt\<close>, for every digest function \<open>H\<close>, while
  \<open>process_text\<close> on \<open>alpha\<close> gives the digest of \<open>alpha\<close>.
\<close>

theorem process_file_doc_id_is_hash_of_path:
  "map doc_id_of (process_file (penv_of H) [''notes.txt'' \<mapsto> text_node ''alpha''] ''notes.txt'' None)
     = [Some (VStr (H ''notes.txt''))]
   \<and> map doc_id_of (process_file (penv_of H) [''notes.txt'' \<mapsto> text_node ''beta''] ''notes.txt'' None)
     = [Some (VStr (H ''notes.txt''))]
   \<and> map page_content (process_file (penv_of H) [''notes.txt'' \<mapsto> text_node ''alpha''] ''notes.txt'' None)
     = [''alpha'']
   \<and> map page_content (process_file (penv_of H) [''notes.txt'' \<mapsto> text_node ''beta''] ''notes.txt'' None)
     = [''beta'']
   \<and> doc_id_of (process_text (penv_of H) ''alpha'' None) = Some (VStr (H ''alpha''))"
  by (simp add: process_file_def process_file_body_def process_text_def str_defs penv_defs)

section \<open>Soft failure of \<open>process_file\<close>\<close>

text \<open>
  Claim C8. For every path, \<open>process_file\<close> returns the empty list and does not raise
  when the file does not exist or when its extension is not in the supported-extension
  mapping: the body of its \<open>try\<close> returns the empty list (it is \<open>Inr []\<close>, no exception),
  and so does \<open>process_file\<close>.
\<close>

theorem process_file_fails_soft:
  assumes "fs file_path = None \<or> \<not> is_supported env file_path"
  shows "process_file_body env fs file_path extra = Inr [] \<and> process_file env fs file_path extra = []"
  using assms by (auto simp: process_file_def process_file_body_def split: option.splits)

theorem process_file_fails_soft_witness:
  "process_file (penv_of id) [''photo.png'' \<mapsto> text_node ''x''] ''missing.txt'' None = []
   \<and> process_file (penv_of id) [''photo.png'' \<mapsto> text_node ''x''] ''photo.png'' None = []"
proof -
  have a: "[''photo.png'' \<mapsto> text_node ''x''] ''missing.txt'' = None
           \<or> \<not> is_supported (penv_of id) ''missing.txt''"
    by simp
  have b: "[''photo.png'' \<mapsto> text_node ''x''] ''photo.png'' = None
           \<or> \<not> is_supported (penv_of id) ''photo.png''"
    by (simp add: str_defs penv_defs)
  show ?thesis
    using process_file_fails_soft [where fs = "[''photo.png'' \<mapsto> text_node ''x'']"
        and file_path = "''missing.txt''" and env = "penv_of id" and extra = None]
      process_file_fails_soft [where fs = "[''photo.png'' \<mapsto> text_node ''x'']"
        and file_path = "''photo.png''" and env = "penv_of id" and extra = None] a b
    by simp
qed

section \<open>Adding no documents\<close>

text \<open>
  Claim C5. For every state of the vector store, \<open>add_documents\<close> applied to the empty
  list returns the empty list (no error) and the store it leaves is the store it was
  given, so the collection information, \<open>document_count\<close> included, and everything
  persisted are unchanged.
\<close>

theorem add_documents_empty:
  "add_documents env s [] = (Inr [], s)
   \<and> get_collection_info env (snd (add_documents env s [])) = get_collection_info env s"
  by (simp add: add_documents_def)

section \<open>Errors at query time\<close>

text \<open>
  Claim C4. For every query, \<open>k\<close> and optional metadata filter: when the embedding of
  the query raises or the backend's search raises, \<open>similarity_search\<close> and
  \<open>similarity_search_with_score\<close> return the empty list. Both are total functions into
  lists: nothing is propagated to the caller, and the result of an error is the result
  of a search with no match.
\<close>

theorem search_errors_give_empty_list:
  assumes "embed env query = None \<or> backend_raises env Call_search"
  shows "similarity_search env s query k filter_metadata = []
       \<and> similarity_search_with_score env s query k filter_metadata = []"
  using assms
  by (auto simp: similarity_search_def similarity_search_body_def similarity_search_with_score_def
      similarity_search_with_score_body_def backend_search_def split: option.splits sum.splits)

theorem search_errors_give_empty_list_witness:
  "similarity_search (venv_of (\<lambda>t. None) (\<lambda>c. False)) faiss_fresh ''what is RAG'' 5 None = []
   \<and> similarity_search_with_score (venv_of length_embedding (\<lambda>c. c = Call_search)) faiss_fresh
        ''what is RAG'' 5 None = []
   \<and> similarity_search venv_ok faiss_fresh ''what is RAG'' 5 None = [dummy_doc]"
proof -
  have a: "embed (venv_of (\<lambda>t. None) (\<lambda>c. False)) ''what is RAG'' = None
           \<or> backend_raises (venv_of (\<lambda>t. None) (\<lambda>c. False)) Call_search"
    by (simp add: venv_of_def)
  have b: "embed (venv_of length_embedding (\<lambda>c. c = Call_search)) ''what is RAG'' = None
           \<or> backend_raises (venv_of length_embedding (\<lambda>c. c = Call_search)) Call_search"
    by (simp add: venv_of_def)
  have c: "similarity_search venv_ok faiss_fresh ''what is RAG'' 5 None = [dummy_doc]"
    by (simp add: similarity_search_def similarity_search_body_def backend_search_def store_defs
        venv_defs filter_items_def)
  show ?thesis
    using search_errors_give_empty_list [where env = "venv_of (\<lambda>t. None) (\<lambda>c. False)"
        and query = "''what is RAG''" and s = faiss_fresh and k = 5 and filter_metadata = None]
      search_errors_give_empty_list [where env = "venv_of length_embedding (\<lambda>c. c = Call_search)"
        and query = "''what is RAG''" and s = faiss_fresh and k = 5 and filter_metadata = None]
      a b c by simp
qed

section \<open>Deleting by identifier\<close>

text \<open>
  Claim C3, as the code has it. For every list of chunk identifiers: on the FAISS
  backend \<open>delete_documents\<close> returns \<open>False\<close> and leaves the store as it was. On the
  Chroma backend it returns \<open>False\<close> and leaves the store as it was when the backend's
  delete call raises; when the collection is open and the call does not raise it returns
  \<open>True\<close>, the collection keeps exactly the entries whose identifier is not in the list,
  and every result of a later search is the chunk of such an entry.
\<close>

theorem delete_documents_by_backend:
  "(store_type s = ''faiss'' \<longrightarrow> delete_documents env s doc_ids = (False, s))
   \<and> (store_type s = ''chroma'' \<and> backend_raises env Call_delete
        \<longrightarrow> delete_documents env s doc_ids = (False, s))
   \<and> (store_type s = ''chroma'' \<and> vector_store s = Some es \<and> \<not> backend_raises env Call_delete
        \<longrightarrow> fst (delete_documents env s doc_ids) = True
            \<and> vector_store (snd (delete_documents env s doc_ids))
                = Some (filter (\<lambda>e. entry_id e \<notin> set doc_ids) es)
            \<and> (\<forall>query k f results.
                  similarity_search_body env (snd (delete_documents env s doc_ids)) query k f = Inr results
                  \<longrightarrow> set results \<subseteq> entry_doc ` {e \<in> set es. entry_id e \<notin> set doc_ids}))"
proof (intro conjI impI)
  assume "store_type s = ''faiss''"
  then show "delete_documents env s doc_ids = (False, s)"
    by (simp add: delete_documents_def)
next
  assume "store_type s = ''chroma'' \<and> backend_raises env Call_delete"
  then show "delete_documents env s doc_ids = (False, s)"
    by (simp add: delete_documents_def split: option.splits)
next
  assume a: "store_type s = ''chroma'' \<and> vector_store s = Some es \<and> \<not> backend_raises env Call_delete"
  then show "fst (delete_documents env s doc_ids) = True"
    by (simp add: delete_documents_def Let_def)
  from a show v: "vector_store (snd (delete_documents env s doc_ids))
                = Some (filter (\<lambda>e. entry_id e \<notin> set doc_ids) es)"
    by (simp add: delete_documents_def Let_def)
  show "\<forall>query k f results.
          similarity_search_body env (snd (delete_documents env s doc_ids)) query k f = Inr results
          \<longrightarrow> set results \<subseteq> entry_doc ` {e \<in> set es. entry_id e \<notin> set doc_ids}"
  proof (intro allI impI)
    fix query k f results
    assume "similarity_search_body env (snd (delete_documents env s doc_ids)) query k f = Inr results"
    from search_within_collection [OF this v]
    show "set results \<subseteq> entry_doc ` {e \<in> set es. entry_id e \<notin> set doc_ids}"
      by simp
  qed
qed

theorem delete_documents_by_backend_witness:
  "delete_documents venv_ok faiss_fresh [''id-0''] = (False, faiss_fresh)
   \<and> delete_documents (venv_of length_embedding (\<lambda>c. c = Call_delete)) chroma_one [''id-0'']
       = (False, chroma_one)
   \<and> fst (delete_documents venv_ok chroma_one [''id-0''])
   \<and> vector_store (snd (delete_documents venv_ok chroma_one [''id-0''])) = Some []"
proof -
  have f: "store_type faiss_fresh = ''faiss''"
    by (simp add: store_defs venv_defs)
  have c: "store_type chroma_one = ''chroma''" "vector_store chroma_one = Some [hello_entry]"
    by (simp_all add: store_defs venv_defs)
  have r: "backend_raises (venv_of length_embedding (\<lambda>c. c = Call_delete)) Call_delete"
    "\<not> backend_raises venv_ok Call_delete"
    by (simp_all add: venv_defs)
  have i: "entry_id hello_entry = ''id-0''"
    by (simp add: hello_entry_def)
  show ?thesis
    using delete_documents_by_backend [where s = faiss_fresh and env = venv_ok
        and doc_ids = "[''id-0'']" and es = "[]"]
      delete_documents_by_backend [where s = chroma_one
        and env = "venv_of length_embedding (\<lambda>c. c = Call_delete)"
        and doc_ids = "[''id-0'']" and es = "[]"]
      delete_documents_by_backend [where s = chroma_one and env = venv_ok
        and doc_ids = "[''id-0'']" and es = "[hello_entry]"]
    by (simp add: f c r i)
qed

text \<open>
  The claim as stated fails on the Chroma backend: with a collection of one entry and a
  backend whose delete call raises, \<open>delete_documents\<close> returns \<open>False\<close>.
\<close>

theorem delete_documents_chroma_counterexample:
  "store_type chroma_one = ''chroma''
   \<and> \<not> fst (delete_documents (venv_of length_embedding (\<lambda>c. c = Call_delete)) chroma_one [''id-0''])"
  by (simp add: delete_documents_def store_defs venv_defs)

section \<open>Structured dispatch of the management tool\<close>



section \<open>The dummy document of the FAISS backend\<close>

lemma backend_add_dummy:
  assumes "backend_add env n [dummy_doc] = Inr new"
  shows "\<exists>i v. new = [\<lparr>entry_id = i, entry_vec = v, entry_doc = dummy_doc\<rparr>]"
proof (cases "embed env (page_content dummy_doc)")
  case None
  with assms show ?thesis
    by (simp add: backend_add_def)
next
  case (Some v)
  with assms have "new = [\<lparr>entry_id = uuid4_str env n, entry_vec = v, entry_doc = dummy_doc\<rparr>]"
    by (simp add: backend_add_def enumerate_eq_zip split: if_splits)
  then show ?thesis
    by blast
qed

lemma init_faiss_dummy:
  assumes "faiss_dir s = None" and "init_faiss env s = (None, s')"
  shows "(\<exists>i v. vector_store s' = Some [\<lparr>entry_id = i, entry_vec = v, entry_doc = dummy_doc\<rparr>])
         \<and> store_type s' = store_type s"
proof (cases "backend_add env (uuid_next s) [dummy_doc]")
  case (Inl e)
  with assms show ?thesis
    by (simp add: init_faiss_def)
next
  case (Inr new)
  with assms have s': "s' = s\<lparr>vector_store := Some new, uuid_next := uuid_next s + length new\<rparr>"
    by (simp add: init_faiss_def)
  from backend_add_dummy [OF Inr] obtain i v where
    "new = [\<lparr>entry_id = i, entry_vec = v, entry_doc = dummy_doc\<rparr>]"
    by blast
  with s' show ?thesis
    by simp
qed

lemma init_chroma_failure:
  assumes "init_chroma env s = (Some e, s')"
  shows "s' = s"
  using assms by (auto simp: init_chroma_def split: chroma_state.splits if_splits)

lemma new_vector_store_faiss:
  assumes "new_vector_store env cdir None n stype pdir model cname = Inr s"
    and "store_type s = ''faiss''"
  shows "\<exists>i v. vector_store s = Some [\<lparr>entry_id = i, entry_vec = v, entry_doc = dummy_doc\<rparr>]"
proof -
  let ?s0 = "\<lparr>store_type = py_lower stype, collection_name = cname, persist_directory = pdir,
              embedding_model = model, vector_store = None, chroma_dir = cdir,
              faiss_dir = None, uuid_next = n\<rparr>"
  from assms(1) have i: "initialize_vector_store env ?s0 = (None, s)"
    by (auto simp: new_vector_store_def split: prod.splits option.splits)
  show ?thesis
  proof (cases "py_lower stype = ''chroma''")
    case True
    show ?thesis
    proof (cases "init_chroma env ?s0")
      case (Pair r s1)
      show ?thesis
      proof (cases r)
        case None
        with Pair True i have "s = s1"
          by (simp add: initialize_vector_store_def)
        with Pair None True have "store_type s = ''chroma''"
          by (auto simp: init_chroma_def split: chroma_state.splits if_splits)
        with assms(2) show ?thesis
          by simp
      next
        case (Some e)
        with Pair have "s1 = ?s0"
          using init_chroma_failure by blast
        with Pair Some True i have "init_faiss env (?s0\<lparr>store_type := ''faiss''\<rparr>) = (None, s)"
          by (simp add: initialize_vector_store_def)
        from init_faiss_dummy [OF _ this] show ?thesis
          by simp
      qed
    qed
  next
    case False
    with i have "init_faiss env ?s0 = (None, s)"
      by (simp add: initialize_vector_store_def split: if_splits)
    from init_faiss_dummy [OF _ this] show ?thesis
      by simp
  qed
qed

lemma clear_collection_faiss:
  assumes "store_type s0 = ''faiss''" and "clear_collection env s0 = (True, s)"
  shows "(\<exists>i v. vector_store s = Some [\<lparr>entry_id = i, entry_vec = v, entry_doc = dummy_doc\<rparr>])
         \<and> store_type s = ''faiss''"
proof -
  from assms have "init_faiss env (s0\<lparr>faiss_dir := None\<rparr>) = (None, s)"
    by (auto simp: clear_collection_def split: if_splits prod.splits option.splits)
  from init_faiss_dummy [OF _ this] assms(1) show ?thesis
    by simp
qed

lemma search_single_entry:
  assumes "vector_store s = Some [\<lparr>entry_id = i, entry_vec = v, entry_doc = d\<rparr>]"
    and "store_type s = ''faiss''"
    and "embed env query = Some qv" and "\<not> backend_raises env Call_search" and "0 < k"
  shows "similarity_search env s query k None = [d]"
proof -
  from assms(5) obtain k' where "k = Suc k'"
    by (cases k) auto
  with assms show ?thesis
    by (simp add: similarity_search_def body_faiss backend_search_def filter_items_def)
qed

text \<open>
  Claim C2. After a \<open>VectorStore\<close> is constructed on the FAISS backend (asked for, or
  fallen back to) when the index directory holds no loadable index, and after every
  \<open>clear_collection\<close> that succeeds on that backend, the collection holds exactly one
  entry, the synthetic chunk with content "Dummy document for initialization" and
  \<open>doc_id\<close> "dummy"; \<open>get_collection_info\<close> reports \<open>document_count\<close> 1, and a
  \<open>similarity_search\<close> for at least one result, whose query embeds and whose backend
  search does not raise, returns this dummy chunk.
\<close>

theorem faiss_fresh_collection_holds_dummy:
  assumes "(new_vector_store env cdir None n stype pdir model cname = Inr s \<and> store_type s = ''faiss'')
           \<or> (store_type s_old = ''faiss'' \<and> clear_collection env s_old = (True, s))"
  shows "(\<exists>i v. vector_store s = Some [\<lparr>entry_id = i, entry_vec = v, entry_doc = dummy_doc\<rparr>])
       \<and> page_content dummy_doc = ''Dummy document for initialization''
       \<and> metadata dummy_doc ''doc_id'' = Some (VStr ''dummy'')
       \<and> map_of (get_collection_info env s) ''document_count'' = Some (VInt 1)
       \<and> (embed env query \<noteq> None \<and> \<not> backend_raises env Call_search \<and> 0 < k
            \<longrightarrow> similarity_search env s query k None = [dummy_doc])"
proof -
  from assms have st: "store_type s = ''faiss''"
    using clear_collection_faiss by blast
  from assms obtain i v where
    vs: "vector_store s = Some [\<lparr>entry_id = i, entry_vec = v, entry_doc = dummy_doc\<rparr>]"
    using new_vector_store_faiss clear_collection_faiss by blast
  have cnt: "map_of (get_collection_info env s) ''document_count'' = Some (VInt 1)"
    by (simp add: get_collection_info_def faiss_ntotal_def st vs)
  have srch: "embed env query \<noteq> None \<and> \<not> backend_raises env Call_search \<and> 0 < k
            \<longrightarrow> similarity_search env s query k None = [dummy_doc]"
    using search_single_entry [OF vs st] by auto
  from vs cnt srch show ?thesis
    by (simp add: dummy_doc_def)
qed

theorem faiss_fresh_collection_holds_dummy_witness:
  "new_vector_store venv_ok (Chroma_ok []) None 0 ''FAISS'' ''data/vector_store''
       ''sentence-transformers/all-MiniLM-L6-v2'' ''langchain_agent_docs'' = Inr faiss_fresh
   \<and> map_of (get_collection_info venv_ok faiss_fresh) ''document_count'' = Some (VInt 1)
   \<and> similarity_search venv_ok faiss_fresh ''what is RAG'' 1 None = [dummy_doc]
   \<and> fst (clear_collection venv_ok faiss_two)
   \<and> map_of (get_collection_info venv_ok (snd (clear_collection venv_ok faiss_two))) ''document_count''
       = Some (VInt 1)
   \<and> similarity_search venv_ok (snd (clear_collection venv_ok faiss_two)) ''hello'' 5 None = [dummy_doc]"
proof -
  have n: "new_vector_store venv_ok (Chroma_ok []) None 0 ''FAISS'' ''data/vector_store''
       ''sentence-transformers/all-MiniLM-L6-v2'' ''langchain_agent_docs'' = Inr faiss_fresh"
    by (simp add: new_vector_store_def initialize_vector_store_def init_faiss_def backend_add_def
        str_of_nat.simps digit_char_def venv_defs store_defs str_defs dummy_doc_def)
  have st: "store_type faiss_fresh = ''faiss''" "store_type faiss_two = ''faiss''"
    by (simp_all add: store_defs venv_defs)
  have "fst (clear_collection venv_ok faiss_two)"
    by (simp add: clear_collection_def init_faiss_def backend_add_def venv_defs store_defs)
  then have c: "clear_collection venv_ok faiss_two = (True, snd (clear_collection venv_ok faiss_two))"
    by (cases "clear_collection venv_ok faiss_two") simp
  have e: "embed venv_ok ''what is RAG'' \<noteq> None" "embed venv_ok ''hello'' \<noteq> None"
    "\<not> backend_raises venv_ok Call_search"
    by (simp_all add: venv_defs)
  have h1: "(new_vector_store venv_ok (Chroma_ok []) None 0 ''FAISS'' ''data/vector_store''
                ''sentence-transformers/all-MiniLM-L6-v2'' ''langchain_agent_docs'' = Inr faiss_fresh
              \<and> store_type faiss_fresh = ''faiss'')
             \<or> (store_type faiss_two = ''faiss''
                 \<and> clear_collection venv_ok faiss_two = (True, faiss_fresh))"
    using n st by simp
  have h2: "(new_vector_store venv_ok (Chroma_ok []) None 0 ''FAISS'' ''data/vector_store''
                ''sentence-transformers/all-MiniLM-L6-v2'' ''langchain_agent_docs''
                = Inr (snd (clear_collection venv_ok faiss_two))
              \<and> store_type (snd (clear_collection venv_ok faiss_two)) = ''faiss'')
             \<or> (store_type faiss_two = ''faiss''
                 \<and> clear_collection venv_ok faiss_two
                     = (True, snd (clear_collection venv_ok faiss_two)))"
    using st c by simp
  from faiss_fresh_collection_holds_dummy [OF h1, where query = "''what is RAG''" and k = 1] e
  have p1: "map_of (get_collection_info venv_ok faiss_fresh) ''document_count'' = Some (VInt 1)"
    and p2: "similarity_search venv_ok faiss_fresh ''what is RAG'' 1 None = [dummy_doc]"
    by simp_all
  from faiss_fresh_collection_holds_dummy [OF h2, where query = "''hello''" and k = 5] e
  have p3: "map_of (get_collection_info venv_ok (snd (clear_collection venv_ok faiss_two)))
              ''document_count'' = Some (VInt 1)"
    and p4: "similarity_search venv_ok (snd (clear_collection venv_ok faiss_two)) ''hello'' 5 None
              = [dummy_doc]"
    by simp_all
  from n p1 p2 p3 p4 \<open>fst (clear_collection venv_ok faiss_two)\<close> show ?thesis
    by blast
qed

section \<open>Chunk metadata\<close>














section \<open>Documents no longer than the chunk size\<close>

lemma chunker_short: "length t \<le> chunk_size \<Longrightarrow> chunker chunk_size ov seps t = [t]"
  by (cases seps) simp_all

text \<open>
  Claim C7. With the chunker of the specification as the text splitter (at any chunk
  size, 1000 by default), a Document whose content is no longer than the chunk size
  gives exactly one chunk in \<open>add_documents\<close>; its content is the Document's content,
  its \<open>chunk_index\<close> is 0 and its \<open>total_chunks\<close> is 1.
\<close>

theorem short_document_is_one_chunk:
  assumes "split_text env = chunker chunk_size chunk_overlap seps"
    and "length (page_content d) \<le> chunk_size"
  shows "\<exists>c. fst (chunk_all env n [d]) = [c]
             \<and> page_content c = page_content d
             \<and> metadata c ''chunk_index'' = Some (VInt 0)
             \<and> metadata c ''total_chunks'' = Some (VInt 1)"
proof -
  from assms have "split_text env (page_content d) = [page_content d]"
    by (simp add: chunker_short)
  then show ?thesis
    by (simp add: chunk_document_def split_documents_def stamp_chunk_def Let_def)
qed

theorem short_document_is_one_chunk_witness:
  "length (page_content hello_doc) \<le> 1000
   \<and> (\<exists>c. fst (chunk_all venv_ok 0 [hello_doc]) = [c]
           \<and> page_content c = page_content hello_doc
           \<and> metadata c ''chunk_index'' = Some (VInt 0)
           \<and> metadata c ''total_chunks'' = Some (VInt 1))"
proof -
  have a: "split_text venv_ok = chunker 1000 200 [newline @ newline, newline, '' '', []]"
    by (simp add: venv_defs text_splitter_def)
  have b: "length (page_content hello_doc) \<le> 1000"
    by (simp add: hello_doc_def)
  from short_document_is_one_chunk [OF a b, of 0] b show ?thesis
    by blast
qed

section \<open>Output of the retrieval tool\<close>

lemma py_join_nonempty: "x \<noteq> [] \<Longrightarrow> py_join sep (x # xs) \<noteq> []"
  by (cases xs) simp_all

lemma format_results_nonempty: "format_results results query \<noteq> []"
  by (simp add: format_results_def no_documents_found_def py_join_nonempty)

lemma format_scored_results_nonempty: "format_scored_results env results query \<noteq> []"
  by (simp add: format_scored_results_def no_documents_found_def py_join_nonempty)

lemma content_line_in_blocks:
  assumes "doc \<in> set results"
  shows "(''Content: '' @ content_preview (page_content doc))
           \<in> set (concat (map (\<lambda>(i, d). result_block (h i) d) (enumerate n results)))"
  using assms
proof (induction results arbitrary: n)
  case Nil
  then show ?case by simp
next
  case (Cons a results)
  then show ?case
    by (auto simp: result_block_def)
qed

lemma padded_preview: "content_preview padded_content = ''x''"
proof -
  have sp: "isspace (CHR '' '')" and nx: "\<not> isspace (CHR ''x'')"
    by (simp_all add: isspace_def whitespace_def)
  have "dropWhile isspace (replicate 300 (CHR '' '') @ ''x'') = dropWhile isspace ''x''"
    by (rule dropWhile_append2) (use sp in auto)
  then have "dropWhile isspace (replicate 300 (CHR '' '') @ ''x'') = ''x''"
    using nx by simp
  then show ?thesis
    using nx by (simp add: content_preview_def padded_content_def py_strip_def)
qed

lemma content_line_in_scored_blocks:
  assumes "r \<in> set results"
  shows "(''Content: '' @ content_preview (page_content (fst r)))
           \<in> set (concat (map (\<lambda>(i, d, sc). result_block (h i sc) d) (enumerate n results)))"
  using assms
proof (induction results arbitrary: n)
  case Nil
  then show ?case by simp
next
  case (Cons a results)
  then show ?case
    by (cases a) (auto simp: result_block_def)
qed

lemma format_results_lines:
  assumes "results \<noteq> []"
  shows "\<exists>header lines. format_results results query = py_join newline (header # lines)
            \<and> (\<forall>doc \<in> set results.
                  (''Content: '' @ content_preview (page_content doc)) \<in> set lines)"
proof -
  let ?header = "''Found '' @ str_of_nat (length results) @ '' relevant documents for query: ''
                 @ quote @ query @ quote @ newline"
  let ?lines = "concat (map (\<lambda>(i, doc). result_block (''--- Document '' @ str_of_nat i @ '' ---'') doc)
                          (enumerate 1 results))"
  have "format_results results query = py_join newline (?header # ?lines)"
    using assms by (simp add: format_results_def)
  moreover have "\<forall>doc \<in> set results.
                  (''Content: '' @ content_preview (page_content doc)) \<in> set ?lines"
    using content_line_in_blocks [where h = "\<lambda>i. ''--- Document '' @ str_of_nat i @ '' ---''" and n = 1]
    by blast
  ultimately show ?thesis
    by blast
qed

lemma format_scored_results_lines:
  assumes "scored \<noteq> []"
  shows "\<exists>header lines. format_scored_results env scored query = py_join newline (header # lines)
            \<and> (\<forall>r \<in> set scored.
                  (''Content: '' @ content_preview (page_content (fst r))) \<in> set lines)"
proof -
  let ?header = "''Found '' @ str_of_nat (length scored) @ '' relevant documents for query: ''
                 @ quote @ query @ quote @ '' (with relevance scores)'' @ newline"
  let ?lines = "concat (map (\<lambda>(i, doc, sc).
                              result_block (''--- Document '' @ str_of_nat i @ '' (Score: ''
                                              @ format_4f env sc @ '') ---'') doc)
                          (enumerate 1 scored))"
  have "format_scored_results env scored query = py_join newline (?header # ?lines)"
    using assms by (simp add: format_scored_results_def)
  moreover have "\<forall>r \<in> set scored.
                  (''Content: '' @ content_preview (page_content (fst r))) \<in> set ?lines"
    using content_line_in_scored_blocks
      [where h = "\<lambda>i sc. ''--- Document '' @ str_of_nat i @ '' (Score: '' @ format_4f env sc @ '') ---''"
        and n = 1]
    by blast
  ultimately show ?thesis
    by blast
qed

lemmas search_defs = similarity_search_def similarity_search_body_def
  similarity_search_with_score_def similarity_search_with_score_body_def backend_search_def
  filter_items_def

text \<open>
  Claim C10, as the code has it. For every query the structured retrieve operation
  returns a non-empty string, which is the plain formatter applied to the result of the
  search, or the scored formatter applied to the result of the search with scores.
  When the search gives no result the output is the line
  \<open>No documents found for query: '<query>'\<close>; when there are results the output of
  either formatter is a header line followed by lines among which is, for every result,
  its content line with the preview. The preview is the chunk content with surrounding
  whitespace stripped, cut to 300 characters and followed by \<open>...\<close> exactly when the
  stripped content is longer than 300 characters.
\<close>

theorem retrieve_output_and_preview:
  "retrieve_documents_structured env s query k with_scores f \<noteq> []
   \<and> retrieve_documents_structured env s query k False f
       = format_results (similarity_search env s query k f) query
   \<and> retrieve_documents_structured env s query k True f
       = format_scored_results env (similarity_search_with_score env s query k f) query
   \<and> (similarity_search env s query k f = []
        \<longrightarrow> retrieve_documents_structured env s query k False f
              = ''No documents found for query: '' @ quote @ query @ quote)
   \<and> (similarity_search_with_score env s query k f = []
        \<longrightarrow> retrieve_documents_structured env s query k True f
              = ''No documents found for query: '' @ quote @ query @ quote)
   \<and> format_results [] query = ''No documents found for query: '' @ quote @ query @ quote
   \<and> format_scored_results env [] query = ''No documents found for query: '' @ quote @ query @ quote
   \<and> (results \<noteq> [] \<longrightarrow>
        (\<exists>header lines. format_results results query = py_join newline (header # lines)
            \<and> (\<forall>doc \<in> set results.
                  (''Content: '' @ content_preview (page_content doc)) \<in> set lines)))
   \<and> (scored \<noteq> [] \<longrightarrow>
        (\<exists>header lines. format_scored_results env scored query = py_join newline (header # lines)
            \<and> (\<forall>r \<in> set scored.
                  (''Content: '' @ content_preview (page_content (fst r))) \<in> set lines)))
   \<and> (length (py_strip c) \<le> 300 \<longrightarrow> content_preview c = py_strip c)
   \<and> (300 < length (py_strip c) \<longrightarrow> content_preview c = take 300 (py_strip c) @ ''...'')"
proof (intro conjI impI)
  show "retrieve_documents_structured env s query k with_scores f \<noteq> []"
    by (simp add: retrieve_documents_structured_def format_results_nonempty
        format_scored_results_nonempty)
next
  show "retrieve_documents_structured env s query k False f
       = format_results (similarity_search env s query k f) query"
    by (simp add: retrieve_documents_structured_def)
next
  show "retrieve_documents_structured env s query k True f
       = format_scored_results env (similarity_search_with_score env s query k f) query"
    by (simp add: retrieve_documents_structured_def)
next
  assume "similarity_search env s query k f = []"
  then show "retrieve_documents_structured env s query k False f
              = ''No documents found for query: '' @ quote @ query @ quote"
    by (simp add: retrieve_documents_structured_def format_results_def no_documents_found_def)
next
  assume "similarity_search_with_score env s query k f = []"
  then show "retrieve_documents_structured env s query k True f
              = ''No documents found for query: '' @ quote @ query @ quote"
    by (simp add: retrieve_documents_structured_def format_scored_results_def no_documents_found_def)
next
  show "format_results [] query = ''No documents found for query: '' @ quote @ query @ quote"
    by (simp add: format_results_def no_documents_found_def)
next
  show "format_scored_results env [] query = ''No documents found for query: '' @ quote @ query @ quote"
    by (simp add: format_scored_results_def no_documents_found_def)
next
  assume "results \<noteq> []"
  then show "\<exists>header lines. format_results results query = py_join newline (header # lines)
            \<and> (\<forall>doc \<in> set results.
                  (''Content: '' @ content_preview (page_content doc)) \<in> set lines)"
    by (rule format_results_lines)
next
  assume "scored \<noteq> []"
  then show "\<exists>header lines. format_scored_results env scored query = py_join newline (header # lines)
            \<and> (\<forall>r \<in> set scored.
                  (''Content: '' @ content_preview (page_content (fst r))) \<in> set lines)"
    by (rule format_scored_results_lines)
next
  assume "length (py_strip c) \<le> 300"
  then show "content_preview c = py_strip c"
    by (simp add: content_preview_def Let_def)
next
  assume "300 < length (py_strip c)"
  then show "content_preview c = take 300 (py_strip c) @ ''...''"
    by (simp add: content_preview_def Let_def)
qed

theorem retrieve_output_and_preview_witness:
  "new_vector_store venv_ok (Chroma_ok []) None 0 ''chroma'' ''data/vector_store''
        ''sentence-transformers/all-MiniLM-L6-v2'' ''langchain_agent_docs'' = Inr (empty_store ''chroma'')
   \<and> retrieve_documents_structured venv_ok (empty_store ''chroma'') ''what is RAG'' 5 False None
     = ''No documents found for query: '' @ quote @ ''what is RAG'' @ quote
   \<and> retrieve_documents_structured venv_ok (empty_store ''chroma'') ''what is RAG'' 5 True None
     = ''No documents found for query: '' @ quote @ ''what is RAG'' @ quote
   \<and> new_vector_store venv_ok (Chroma_ok []) None 0 ''faiss'' ''data/vector_store''
        ''sentence-transformers/all-MiniLM-L6-v2'' ''langchain_agent_docs'' = Inr faiss_fresh
   \<and> similarity_search venv_ok faiss_fresh ''q'' 1 None = [dummy_doc]
   \<and> similarity_search_with_score venv_ok faiss_fresh ''q'' 1 None = [(dummy_doc, 32)]
   \<and> (\<exists>header lines.
         retrieve_documents_structured venv_ok faiss_fresh ''q'' 1 False None
           = py_join newline (header # lines)
         \<and> ''Content: Dummy document for initialization'' \<in> set lines)
   \<and> (\<exists>header lines.
         retrieve_documents_structured venv_ok faiss_fresh ''q'' 1 True None
           = py_join newline (header # lines)
         \<and> ''Content: Dummy document for initialization'' \<in> set lines)
   \<and> content_preview '' hello '' = ''hello''
   \<and> content_preview (replicate 301 (CHR ''a'')) = replicate 300 (CHR ''a'') @ ''...''"
proof -
  have r1: "new_vector_store venv_ok (Chroma_ok []) None 0 ''chroma'' ''data/vector_store''
        ''sentence-transformers/all-MiniLM-L6-v2'' ''langchain_agent_docs'' = Inr (empty_store ''chroma'')"
    by (simp add: new_vector_store_def initialize_vector_store_def init_chroma_def venv_defs str_defs)
  have r2: "new_vector_store venv_ok (Chroma_ok []) None 0 ''faiss'' ''data/vector_store''
        ''sentence-transformers/all-MiniLM-L6-v2'' ''langchain_agent_docs'' = Inr faiss_fresh"
    by (simp add: new_vector_store_def initialize_vector_store_def init_faiss_def backend_add_def
        venv_defs str_defs store_defs dummy_doc_def str_of_nat.simps digit_char_def)
  have a: "similarity_search venv_ok (empty_store ''chroma'') ''what is RAG'' 5 None = []"
    by (simp add: search_defs venv_defs)
  have b: "similarity_search_with_score venv_ok (empty_store ''chroma'') ''what is RAG'' 5 None = []"
    by (simp add: search_defs venv_defs)
  have a': "similarity_search venv_ok faiss_fresh ''q'' 1 None = [dummy_doc]"
    by (simp add: search_defs venv_defs faiss_fresh_def dummy_entry_def)
  have b': "similarity_search_with_score venv_ok faiss_fresh ''q'' 1 None = [(dummy_doc, 32)]"
    by (simp add: search_defs venv_defs faiss_fresh_def dummy_entry_def)
  have na: "\<not> isspace (CHR ''a'')"
    by (simp add: isspace_def whitespace_def)
  have c: "py_strip '' hello '' = ''hello''"
    by (simp add: str_defs)
  have "dropWhile isspace (replicate 301 (CHR ''a'')) = replicate 301 (CHR ''a'')"
    using na by (simp add: dropWhile_eq_self_iff)
  then have d: "py_strip (replicate 301 (CHR ''a'')) = replicate 301 (CHR ''a'')"
    by (simp add: py_strip_def)
  have pv: "content_preview (page_content dummy_doc) = ''Dummy document for initialization''"
    by (simp add: content_preview_def dummy_doc_def str_defs)
  note t1 = retrieve_output_and_preview [where env = venv_ok and s = "empty_store ''chroma''"
        and query = "''what is RAG''" and k = 5 and f = None and with_scores = False
        and results = "[dummy_doc]" and scored = "[(dummy_doc, 32)]" and c = "'' hello ''"]
  note t2 = retrieve_output_and_preview [where env = venv_ok and s = faiss_fresh
        and query = "''q''" and k = 1 and f = None and with_scores = False
        and results = "[dummy_doc]" and scored = "[(dummy_doc, 32)]"
        and c = "replicate 301 (CHR ''a'')"]
  from t1 a b c have p1: "retrieve_documents_structured venv_ok (empty_store ''chroma'') ''what is RAG'' 5 False None
     = ''No documents found for query: '' @ quote @ ''what is RAG'' @ quote"
    and p2: "retrieve_documents_structured venv_ok (empty_store ''chroma'') ''what is RAG'' 5 True None
     = ''No documents found for query: '' @ quote @ ''what is RAG'' @ quote"
    and p3: "content_preview '' hello '' = ''hello''"
    by simp_all
  from t2 d have p4: "content_preview (replicate 301 (CHR ''a'')) = replicate 300 (CHR ''a'') @ ''...''"
    by simp
  from t2 have "\<exists>header lines. format_results [dummy_doc] ''q'' = py_join newline (header # lines)
         \<and> (''Content: '' @ content_preview (page_content dummy_doc)) \<in> set lines"
    by simp
  moreover from t2 have "retrieve_documents_structured venv_ok faiss_fresh ''q'' 1 False None
       = format_results (similarity_search venv_ok faiss_fresh ''q'' 1 None) ''q''"
    by (rule conjunct1 [OF conjunct2])
  ultimately have p5: "\<exists>header lines.
         retrieve_documents_structured venv_ok faiss_fresh ''q'' 1 False None
           = py_join newline (header # lines)
         \<and> ''Content: Dummy document for initialization'' \<in> set lines"
    unfolding a' pv by simp
  from t2 have "\<exists>header lines. format_scored_results venv_ok [(dummy_doc, 32)] ''q''
           = py_join newline (header # lines)
         \<and> (''Content: '' @ content_preview (page_content dummy_doc)) \<in> set lines"
    by simp
  moreover from t2 have "retrieve_documents_structured venv_ok faiss_fresh ''q'' 1 True None
       = format_scored_results venv_ok (similarity_search_with_score venv_ok faiss_fresh ''q'' 1 None) ''q''"
    by (rule conjunct1 [OF conjunct2 [OF conjunct2]])
  ultimately have p6: "\<exists>header lines.
         retrieve_documents_structured venv_ok faiss_fresh ''q'' 1 True None
           = py_join newline (header # lines)
         \<and> ''Content: Dummy document for initialization'' \<in> set lines"
    unfolding b' pv by simp
  show ?thesis
    by (intro conjI) (rule r1 p1 p2 r2 a' b' p5 p6 p3 p4)+
qed

text \<open>
  The claim as stated, with the cut decided by the length of the chunk content, fails
  for both retrieve operations: on a FAISS store loaded with one chunk of 301
  characters, one letter followed by 300 spaces, the retrieve operation shows that
  chunk as the letter alone, with no marker, with and without scores.
\<close>

theorem preview_not_cut_counterexample:
  "300 < length padded_content
   \<and> new_vector_store venv_ok (Chroma_ok []) (Some [padded_entry]) 0 ''faiss'' ''data/vector_store''
        ''sentence-transformers/all-MiniLM-L6-v2'' ''langchain_agent_docs'' = Inr padded_store
   \<and> similarity_search venv_ok padded_store ''q'' 1 None
        = [\<lparr>page_content = padded_content, metadata = Map.empty\<rparr>]
   \<and> retrieve_documents_structured venv_ok padded_store ''q'' 1 False None
        = py_join newline [''Found 1 relevant documents for query: '' @ quote @ ''q'' @ quote @ newline,
                           ''--- Document 1 ---'', ''Content: x'', []]
   \<and> retrieve_documents_structured venv_ok padded_store ''q'' 1 True None
        = py_join newline [''Found 1 relevant documents for query: '' @ quote @ ''q'' @ quote
                             @ '' (with relevance scores)'' @ newline,
                           ''--- Document 1 (Score: 300.0000) ---'', ''Content: x'', []]"
proof -
  have a: "300 < length padded_content"
    by (simp add: padded_content_def)
  have b: "new_vector_store venv_ok (Chroma_ok []) (Some [padded_entry]) 0 ''faiss'' ''data/vector_store''
        ''sentence-transformers/all-MiniLM-L6-v2'' ''langchain_agent_docs'' = Inr padded_store"
    by (simp add: new_vector_store_def initialize_vector_store_def init_faiss_def padded_store_def
        venv_defs str_defs)
  have c: "similarity_search venv_ok padded_store ''q'' 1 None
        = [\<lparr>page_content = padded_content, metadata = Map.empty\<rparr>]"
    by (simp add: search_defs padded_store_def padded_entry_def venv_defs)
  have d: "similarity_search_with_score venv_ok padded_store ''q'' 1 None
        = [(\<lparr>page_content = padded_content, metadata = Map.empty\<rparr>, 300)]"
    by (simp add: search_defs padded_store_def padded_entry_def venv_defs)
  have e0: "format_results [\<lparr>page_content = padded_content, metadata = Map.empty\<rparr>] ''q''
        = py_join newline [''Found 1 relevant documents for query: '' @ quote @ ''q'' @ quote @ newline,
                           ''--- Document 1 ---'', ''Content: x'', []]"
    by (simp add: format_results_def result_block_def metadata_lines_def padded_preview
        str_of_nat.simps digit_char_def enumerate_eq_zip)
  have f0: "format_scored_results venv_ok
              [(\<lparr>page_content = padded_content, metadata = Map.empty\<rparr>, 300)] ''q''
        = py_join newline [''Found 1 relevant documents for query: '' @ quote @ ''q'' @ quote
                             @ '' (with relevance scores)'' @ newline,
                           ''--- Document 1 (Score: 300.0000) ---'', ''Content: x'', []]"
    by (simp add: format_scored_results_def result_block_def metadata_lines_def padded_preview
        str_of_nat.simps digit_char_def enumerate_eq_zip venv_defs)
  have e: "retrieve_documents_structured venv_ok padded_store ''q'' 1 False None
        = py_join newline [''Found 1 relevant documents for query: '' @ quote @ ''q'' @ quote @ newline,
                           ''--- Document 1 ---'', ''Content: x'', []]"
    unfolding retrieve_documents_structured_def c using e0 by simp
  have f: "retrieve_documents_structured venv_ok padded_store ''q'' 1 True None
        = py_join newline [''Found 1 relevant documents for query: '' @ quote @ ''q'' @ quote
                             @ '' (with relevance scores)'' @ newline,
                           ''--- Document 1 (Score: 300.0000) ---'', ''Content: x'', []]"
    unfolding retrieve_documents_structured_def d using f0 by simp
  show ?thesis
    by (intro conjI) (rule a b c e f)+
qed
end
